theory Spec2Isabelle
  imports Main
begin

section \<open>JavaScript values and AST nodes\<close>

text \<open>
  The node types registered by \<^verbatim>\<open>defineType\<close>, one constructor per definition of the
  types module (the value of \<^verbatim>\<open>X.type\<close> in the source).
\<close>

datatype kind =
    Assignment | AssignmentPattern | AtContent | AtReturn | AtRule | BlockStatement
  | CallExpression | Comment | Declaration | IfStatement | Identifier
  | LogicalExpression | RestPattern | Rule | SassBoolean | SassColor | SassForward
  | SassFunction | SassFunctionCall | SassImport | SassNumber | SassString | SassList
  | SassMap | SassMapProperty | SassModule | SassValue | SassMixin | SassMixinCall
  | StyleSheet | Newline

text \<open>
  The values a field can hold. A node is an object with an identity (the first
  component: \<^verbatim>\<open>indexOf\<close> compares objects by reference), its type tag and its
  fields in declaration order. A number is given by the text JavaScript prints for it
  (\<^verbatim>\<open>String(n)\<close>, such as \<^verbatim>\<open>12\<close>, \<^verbatim>\<open>0.5\<close>, \<^verbatim>\<open>1e+21\<close> or \<^verbatim>\<open>NaN\<close>), which
  determines the number up to the sign of zero.
\<close>

datatype jsval =
    JUndefined
  | JNull
  | JBool bool
  | JNum string
  | JStr string
  | JArr "jsval list"
  | JNode nat kind "(string \<times> jsval) list"

datatype error =
    SchemaValidationError kind string jsval
  | UnknownNodeType
  | TypeError

text \<open>Property access \<^verbatim>\<open>node.f\<close>: an absent field reads as \<^verbatim>\<open>undefined\<close>.\<close>

definition field :: "(string \<times> jsval) list \<Rightarrow> string \<Rightarrow> jsval" where
  "field fs f = (case map_of fs f of Some v \<Rightarrow> v | None \<Rightarrow> JUndefined)"

text \<open>\<^verbatim>\<open>v.f\<close> on any value; only nodes carry fields.\<close>

fun get_prop :: "jsval \<Rightarrow> string \<Rightarrow> jsval" where
  "get_prop (JNode r k fs) f = field fs f"
| "get_prop v f = JUndefined"

text \<open>\<^verbatim>\<open>v.type\<close>, as far as it can equal the tag of a definition.\<close>

fun kind_of :: "jsval \<Rightarrow> kind option" where
  "kind_of (JNode r k fs) = Some k"
| "kind_of v = None"

fun truthy :: "jsval \<Rightarrow> bool" where
  "truthy JUndefined = False"
| "truthy JNull = False"
| "truthy (JBool b) = b"
| "truthy (JNum n) = (n \<noteq> ''0'' \<and> n \<noteq> ''NaN'')"
| "truthy (JStr s) = (s \<noteq> [])"
| "truthy (JArr xs) = True"
| "truthy (JNode r k fs) = True"

fun nullish :: "jsval \<Rightarrow> bool" where
  "nullish JUndefined = True"
| "nullish JNull = True"
| "nullish v = False"

text \<open>\<^verbatim>\<open>a || b\<close>\<close>

definition js_or :: "jsval \<Rightarrow> jsval \<Rightarrow> jsval" where
  "js_or a b = (if truthy a then a else b)"

text \<open>
  \<^verbatim>\<open>xs.indexOf(node)\<close>: the first position holding the object, or -1. A node carries
  its reference, so two values are the same object exactly when they are equal.
\<close>

fun index_of :: "jsval \<Rightarrow> jsval list \<Rightarrow> int" where
  "index_of n [] = - 1"
| "index_of n (x # xs) =
     (if x = n then 0
      else (let i = index_of n xs in if i < 0 then - 1 else i + 1))"

subsection \<open>Strings\<close>

text \<open>Elements joined by a separator, none after the last.\<close>

fun sep_by :: "'a list \<Rightarrow> 'a list list \<Rightarrow> 'a list" where
  "sep_by s [] = []"
| "sep_by s [x] = x"
| "sep_by s (x # y # ys) = x @ s @ sep_by s (y # ys)"

text \<open>\<^verbatim>\<open>s.split(c)\<close> for a one-character separator.\<close>

fun split_on :: "char \<Rightarrow> string \<Rightarrow> string list" where
  "split_on c [] = [[]]"
| "split_on c (x # xs) =
     (if x = c then [] # split_on c xs
      else (case split_on c xs of
              l # ls \<Rightarrow> (x # l) # ls
            | [] \<Rightarrow> [[x]]))"

text \<open>
  \<^verbatim>\<open>String(v)\<close>, as template literals and \<^verbatim>\<open>join\<close> apply it: inside an array,
  \<^verbatim>\<open>undefined\<close> and \<^verbatim>\<open>null\<close> give the empty string.
\<close>

fun to_string :: "jsval \<Rightarrow> string" where
  "to_string JUndefined = ''undefined''"
| "to_string JNull = ''null''"
| "to_string (JBool b) = (if b then ''true'' else ''false'')"
| "to_string (JNum n) = n"
| "to_string (JStr s) = s"
| "to_string (JArr xs) = sep_by '','' (map (\<lambda>x. if nullish x then [] else to_string x) xs)"
| "to_string (JNode r k fs) = ''[object Object]''"

text \<open>\<^verbatim>\<open>xs.join(sep)\<close>\<close>

definition js_join :: "string \<Rightarrow> jsval list \<Rightarrow> string" where
  "js_join s xs = sep_by s (map (\<lambda>x. if nullish x then [] else to_string x) xs)"

section \<open>Emission routines\<close>

text \<open>
  The calls an emission routine makes on the printer it is given. No routine reads
  anything back from the printer, so a routine is the sequence of its calls; a routine
  that throws keeps the calls made before.
\<close>

datatype cmd =
    PToken jsval
  | PSpace
  | PNewline
  | PMaybeNewline
  | PBlockStart string
  | PBlockEnd string

type_synonym emission = "cmd list \<times> error option"

definition skip :: emission where
  "skip = ([], None)"

definition emit :: "cmd \<Rightarrow> emission" where
  "emit c = ([c], None)"

definition throw :: "error \<Rightarrow> emission" where
  "throw e = ([], Some e)"

definition tok :: "string \<Rightarrow> emission" where
  "tok s = emit (PToken (JStr s))"

fun and_then :: "emission \<Rightarrow> emission \<Rightarrow> emission" where
  "and_then (cs, None) e = (cs @ fst e, snd e)"
| "and_then (cs, Some x) e = (cs, Some x)"

definition steps :: "emission list \<Rightarrow> emission" where
  "steps es = foldr and_then es skip"

text \<open>
  A \<^verbatim>\<open>for\<close> loop over \<^verbatim>\<open>v.length\<close> where \<^verbatim>\<open>v\<close> is no array: reading the
  length of \<^verbatim>\<open>undefined\<close> or \<^verbatim>\<open>null\<close> throws, the first character of a string is
  no node, and any other value has no length (nodes are taken to have no field of that
  name), so the body never runs.
\<close>

fun loop_non_array :: "jsval \<Rightarrow> emission" where
  "loop_non_array JUndefined = throw TypeError"
| "loop_non_array JNull = throw TypeError"
| "loop_non_array (JStr s) = (if s = [] then skip else throw UnknownNodeType)"
| "loop_non_array v = skip"

text \<open>
  \<^verbatim>\<open>if (param.type === Identifier.type) printer.token('$')\<close> of the two call routines.
\<close>

definition param_sigil :: "jsval \<Rightarrow> emission" where
  "param_sigil x =
     (if nullish x then throw TypeError
      else if kind_of x = Some Identifier then tok ''$'' else skip)"

text \<open>
  \<^verbatim>\<open>parent?.body?.indexOf(node) !== 0\<close> of AtContent and AtReturn. A body that is a
  string is searched for the text of the node; any other body that is no array has no
  \<^verbatim>\<open>indexOf\<close>, and the call throws.
\<close>

definition not_first_in_body :: "jsval \<Rightarrow> jsval \<Rightarrow> error + bool" where
  "not_first_in_body parent node =
     (case get_prop parent ''body'' of
        JUndefined \<Rightarrow> Inr True
      | JNull \<Rightarrow> Inr True
      | JArr xs \<Rightarrow> Inr (index_of node xs \<noteq> 0)
      | JStr s \<Rightarrow> Inr (take 15 s \<noteq> ''[object Object]'')
      | _ \<Rightarrow> Inl TypeError)"

definition statement_break :: "jsval \<Rightarrow> jsval \<Rightarrow> emission" where
  "statement_break parent node =
     (case not_first_in_body parent node of
        Inl e \<Rightarrow> throw e
      | Inr b \<Rightarrow> if b then emit PMaybeNewline else skip)"

text \<open>The part of the Assignment routine after \<^verbatim>\<open>printer.token(';')\<close>.\<close>

definition assignment_spacing :: "jsval \<Rightarrow> jsval \<Rightarrow> emission" where
  "assignment_spacing node parent =
     (if truthy parent then
        (case js_or (get_prop parent ''children'') (get_prop parent ''body'') of
           JArr collection \<Rightarrow>
             if length collection > 1 then
               (if list_ex nullish collection then throw TypeError
                else
                  (let assignments = filter (\<lambda>n. kind_of n = Some Assignment) collection
                   in if length assignments = 1
                         \<or> index_of node assignments = int (length assignments) - 1
                      then emit PNewline else skip))
             else skip
         | JStr s \<Rightarrow> if length s > 1 then throw TypeError else skip
         | _ \<Rightarrow> skip)
      else skip)"

text \<open>The test of the Identifier routine on its parent.\<close>

definition is_sigil_parent :: "jsval \<Rightarrow> bool" where
  "is_sigil_parent parent \<longleftrightarrow>
     truthy parent \<and>
     (kind_of parent = Some Assignment \<or>
      kind_of parent = Some AssignmentPattern \<or>
      kind_of parent = Some CallExpression \<or>
      kind_of parent = Some LogicalExpression \<or>
      kind_of parent = Some SassMixin \<or>
      kind_of parent = Some SassList \<or>
      kind_of parent = Some RestPattern \<or>
      kind_of parent = Some SassFunction)"

text \<open>The loop of the Comment routine over the lines of the value.\<close>

fun comment_lines :: "string list \<Rightarrow> emission" where
  "comment_lines [] = skip"
| "comment_lines (l # ls) =
     steps [tok ''// '', tok l, if ls \<noteq> [] then emit PNewline else skip, comment_lines ls]"

text \<open>\<^verbatim>\<open>printer.token(node.selectors?.join(', '))\<close> of the Rule routine.\<close>

fun selectors_token :: "jsval \<Rightarrow> emission" where
  "selectors_token (JArr xs) = tok (js_join '', '' xs)"
| "selectors_token JUndefined = emit (PToken JUndefined)"
| "selectors_token JNull = emit (PToken JUndefined)"
| "selectors_token v = throw TypeError"

text \<open>
  \<^verbatim>\<open>printer.print(node, parent)\<close> with the routine of every type; \<open>print_each\<close> is the
  loop shared by the routines that print an array: \<^verbatim>\<open>print(xs[i], parent)\<close>, then the
  separator unless \<^verbatim>\<open>i\<close> is the last index. Its first argument says whether the
  loop tests each element for the sigil first, as the two call routines do.

  Modelled from the spec: the dispatch of \<^verbatim>\<open>printer.print\<close> itself is not part of
  the types module; it invokes the emission routine of the node's type with the printer,
  the node and the parent, and fails with UnknownNodeType where there is none.
\<close>

function print :: "jsval \<Rightarrow> jsval \<Rightarrow> emission"
  and print_each :: "bool \<Rightarrow> cmd list \<Rightarrow> jsval list \<Rightarrow> jsval \<Rightarrow> emission"
where
  "print (JNode r Comment fs) parent =
     (let v = field fs ''value'' in
      if v = JStr [] \<or> v = JUndefined \<or> v = JNull then skip
      else (case v of
              JStr s \<Rightarrow> comment_lines (split_on CHR ''\<newline>'' s)
            | _ \<Rightarrow> throw TypeError))"
| "print (JNode r Identifier fs) parent =
     steps [if is_sigil_parent parent then tok ''$'' else skip,
            emit (PToken (field fs ''name''))]"
| "print (JNode r BlockStatement fs) parent =
     steps [emit (PBlockStart ''{''),
            (case field fs ''body'' of
               JArr xs \<Rightarrow> print_each False [PNewline] xs (JNode r BlockStatement fs)
             | v \<Rightarrow> loop_non_array v),
            emit (PBlockEnd ''}'')]"
| "print (JNode r SassBoolean fs) parent = emit (PToken (field fs ''value''))"
| "print (JNode r SassColor fs) parent = emit (PToken (field fs ''value''))"
| "print (JNode r SassFunction fs) parent =
     steps [tok ''@function'', emit PSpace,
            print (field fs ''id'') parent,
            tok ''('',
            (case field fs ''params'' of
               JArr xs \<Rightarrow> print_each False [PToken (JStr '',''), PSpace] xs (JNode r SassFunction fs)
             | _ \<Rightarrow> skip),
            tok '')'', emit PSpace,
            print (field fs ''body'') parent]"
| "print (JNode r SassList fs) parent =
     steps [tok ''('',
            (case field fs ''elements'' of
               JArr xs \<Rightarrow> print_each False [PToken (JStr '',''), PSpace] xs (JNode r SassList fs)
             | v \<Rightarrow> loop_non_array v),
            tok '')'']"
| "print (JNode r SassMap fs) parent =
     steps [emit (PBlockStart ''(''),
            (case field fs ''properties'' of
               JArr xs \<Rightarrow> print_each False [PToken (JStr '',''), PNewline] xs JUndefined
             | v \<Rightarrow> loop_non_array v),
            emit (PBlockEnd '')'')]"
| "print (JNode r SassMapProperty fs) parent =
     steps [if truthy (field fs ''quoted'')
            then steps [tok [CHR 0x27],
                        print (field fs ''key'') (JNode r SassMapProperty fs),
                        tok [CHR 0x27]]
            else print (field fs ''key'') (JNode r SassMapProperty fs),
            tok '':'', emit PSpace,
            print (field fs ''value'') (JNode r SassMapProperty fs)]"
| "print (JNode r SassMixin fs) parent =
     steps [tok ''@mixin'', emit PSpace,
            print (field fs ''id'') parent,
            tok ''('',
            (case field fs ''params'' of
               JArr xs \<Rightarrow> print_each False [PToken (JStr '',''), PSpace] xs (JNode r SassMixin fs)
             | _ \<Rightarrow> skip),
            tok '')'', emit PSpace,
            print (field fs ''body'') parent]"
| "print (JNode r SassNumber fs) parent = emit (PToken (field fs ''value''))"
| "print (JNode r SassString fs) parent =
     tok ([CHR 0x27] @ to_string (field fs ''value'') @ [CHR 0x27])"
| "print (JNode r SassValue fs) parent = emit (PToken (field fs ''value''))"
| "print (JNode r SassFunctionCall fs) parent =
     steps [emit PSpace,
            print (field fs ''id'') JUndefined,
            tok ''('',
            (case field fs ''params'' of
               JArr xs \<Rightarrow> print_each True [PToken (JStr '',''), PSpace] xs (JNode r SassFunctionCall fs)
             | _ \<Rightarrow> skip),
            tok '')'']"
| "print (JNode r SassMixinCall fs) parent =
     steps [tok ''@include'', emit PSpace,
            print (field fs ''id'') JUndefined,
            tok ''('',
            (case field fs ''params'' of
               JArr xs \<Rightarrow> print_each True [PToken (JStr '',''), PSpace] xs (JNode r SassMixinCall fs)
             | _ \<Rightarrow> skip),
            tok '')'',
            if truthy (field fs ''body'')
            then print (field fs ''body'') (JNode r SassMixinCall fs) else skip,
            tok '';'']"
| "print (JNode r Rule fs) parent =
     steps [selectors_token (field fs ''selectors''),
            emit PSpace,
            emit (PBlockStart ''{''),
            (case field fs ''declarations'' of
               JArr xs \<Rightarrow> print_each False [PNewline] xs (JNode r Rule fs)
             | v \<Rightarrow> loop_non_array v),
            emit (PBlockEnd ''}'')]"
| "print (JNode r Declaration fs) parent =
     steps [emit (PToken (field fs ''property'')),
            tok '':'', emit PSpace,
            (case field fs ''value'' of
               JStr s \<Rightarrow> tok s
             | _ \<Rightarrow> print (field fs ''value'') JUndefined),
            tok '';'']"
| "print (JNode r AtRule fs) parent =
     steps [tok (''@'' @ to_string (field fs ''name'')),
            emit PSpace,
            emit (PToken (field fs ''media'')),
            emit PSpace,
            (case field fs ''children'' of
               JArr xs \<Rightarrow>
                 if length xs > 0
                 then steps [emit (PBlockStart ''{''),
                             print_each False [PNewline] xs (JNode r AtRule fs),
                             emit (PBlockEnd ''}'')]
                 else skip
             | JStr s \<Rightarrow>
                 if length s > 0
                 then steps [emit (PBlockStart ''{''), throw UnknownNodeType]
                 else skip
             | _ \<Rightarrow> skip)]"
| "print (JNode r AtContent fs) parent =
     steps [statement_break parent (JNode r AtContent fs),
            tok ''@content;'']"
| "print (JNode r AtReturn fs) parent =
     steps [statement_break parent (JNode r AtReturn fs),
            tok ''@return'', emit PSpace,
            print (field fs ''argument'') (JNode r AtReturn fs),
            tok '';'']"
| "print (JNode r Assignment fs) parent =
     steps [print (field fs ''id'') (JNode r Assignment fs),
            tok '':'', emit PSpace,
            print (field fs ''init'') (JNode r Assignment fs),
            if truthy (field fs ''default'')
            then steps [emit PSpace, tok ''!default'',
                        if truthy (field fs ''global'') then emit PSpace else skip]
            else skip,
            if truthy (field fs ''global'') then tok ''!global'' else skip,
            tok '';'',
            assignment_spacing (JNode r Assignment fs) parent]"
| "print (JNode r AssignmentPattern fs) parent =
     steps [print (field fs ''left'') (JNode r AssignmentPattern fs),
            tok '':'', emit PSpace,
            print (field fs ''right'') (JNode r AssignmentPattern fs)]"
| "print (JNode r RestPattern fs) parent =
     steps [print (field fs ''id'') parent, tok ''...'']"
| "print (JNode r SassImport fs) parent =
     steps [tok ''@import'', emit PSpace,
            tok ([CHR 0x27] @ to_string (field fs ''path'') @ [CHR 0x27]),
            tok '';'']"
| "print (JNode r SassModule fs) parent =
     steps [tok ''@use'', emit PSpace,
            tok ([CHR 0x27] @ to_string (field fs ''path'') @ [CHR 0x27]),
            tok '';'']"
| "print (JNode r SassForward fs) parent =
     steps [tok ''@forward'', emit PSpace,
            tok ([CHR 0x27] @ to_string (field fs ''path'') @ [CHR 0x27]),
            tok '';'']"
| "print (JNode r IfStatement fs) parent =
     steps [if truthy parent \<and> kind_of parent = Some IfStatement
            then steps [emit PSpace, tok ''if'']
            else tok ''@if'',
            emit PSpace,
            print (field fs ''test'') (JNode r IfStatement fs),
            print (field fs ''consequent'') (JNode r IfStatement fs),
            if truthy (field fs ''alternate'')
            then steps [tok ''@else'',
                        print (field fs ''alternate'') (JNode r IfStatement fs)]
            else skip]"
| "print (JNode r LogicalExpression fs) parent =
     steps [print (field fs ''left'') (JNode r LogicalExpression fs),
            emit PSpace,
            emit (PToken (field fs ''operator'')),
            emit PSpace,
            print (field fs ''right'') (JNode r LogicalExpression fs)]"
| "print (JNode r CallExpression fs) parent =
     steps [print (field fs ''callee'') JUndefined,
            tok ''('',
            (case field fs ''arguments'' of
               JArr xs \<Rightarrow> print_each False [PToken (JStr '',''), PSpace] xs (JNode r CallExpression fs)
             | _ \<Rightarrow> skip),
            tok '')'']"
| "print (JNode r Newline fs) parent = emit PNewline"
| "print (JNode r StyleSheet fs) parent =
     (case field fs ''children'' of
        JArr xs \<Rightarrow> print_each False [PNewline] xs (JNode r StyleSheet fs)
      | v \<Rightarrow> loop_non_array v)"
| "print JUndefined parent = throw UnknownNodeType"
| "print JNull parent = throw UnknownNodeType"
| "print (JBool b) parent = throw UnknownNodeType"
| "print (JNum n) parent = throw UnknownNodeType"
| "print (JStr s) parent = throw UnknownNodeType"
| "print (JArr xs) parent = throw UnknownNodeType"
| "print_each sigil sep [] parent = skip"
| "print_each sigil sep (x # xs) parent =
     steps [if sigil then param_sigil x else skip,
            print x parent,
            if xs \<noteq> [] then (sep, None) else skip,
            print_each sigil sep xs parent]"
  by pat_completeness auto
termination
proof -
  have less: "size v < Suc (size_list (\<lambda>x. Suc (size (snd x))) fs)"
    if "map_of fs f = Some v" for fs :: "(string \<times> jsval) list" and f v
    using that by (induction fs) (auto split: if_splits)
  have field_less: "size (field fs f) < Suc (size_list (\<lambda>x. Suc (size (snd x))) fs)"
    for fs f
    using less [of fs f] by (auto simp: field_def split: option.splits)
  have arr_less: "size_list size xs < size_list (\<lambda>x. Suc (size (snd x))) fs"
    if "field fs f = JArr xs" for fs f xs
    using field_less [of fs f] that by simp
  have node_less:
    "size_list (\<lambda>x. Suc (size (snd x))) gs < size_list (\<lambda>x. Suc (size (snd x))) fs"
    if "field fs f = JNode r k gs" for fs f r k gs
    using field_less [of fs f] that by (simp add: size_prod_simp)
  show ?thesis
    by (relation "measure (\<lambda>x. case x of
                     Inl (n, p) \<Rightarrow> size n
                   | Inr (g, sep, xs, p) \<Rightarrow> size_list size xs)")
       (auto simp: termination_simp field_less less_SucI [OF arr_less] arr_less node_less)
qed

section \<open>The printer\<close>

text \<open>
  Modelled from the spec: the printer is not part of the types module. It is a token sink
  that owns the indent depth, the line-start flag and the pending separator. \<open>token\<close>
  appends a literal, turning a value that is no string into its text. \<open>space\<close> asks for
  a single space: the space is pending until the next token of the line, before which it
  is put; several spaces in a row are one, and a space with no token after it on its
  line is dropped, as in the rendering of an at-rule without children. \<open>newline\<close>
  ends the current line, and the indent (two spaces per level, as in the rendering of a
  rule) is applied on the next token. \<open>maybeNewline\<close> is a newline unless the cursor is
  at the start of a line. \<open>blockStart\<close> puts the opening delimiter, with one space
  before it as in the renderings of a rule and of a mixin call with a block, and starts
  an indented line; \<open>blockEnd\<close> goes back one level, starts a line and puts the closing
  delimiter.
\<close>

record printer =
  buffer :: string
  indent :: nat
  line_start :: bool
  pending_space :: bool

definition new_printer :: printer where
  "new_printer = \<lparr>buffer = [], indent = 0, line_start = True, pending_space = False\<rparr>"

definition token :: "jsval \<Rightarrow> printer \<Rightarrow> printer" where
  "token v p =
     p\<lparr>buffer := buffer p
                  @ (if line_start p then replicate (2 * indent p) CHR '' ''
                     else if pending_space p then '' '' else [])
                  @ to_string v,
       line_start := False,
       pending_space := False\<rparr>"

definition space :: "printer \<Rightarrow> printer" where
  "space p = p\<lparr>pending_space := True\<rparr>"

definition newline :: "printer \<Rightarrow> printer" where
  "newline p =
     p\<lparr>buffer := buffer p @ [CHR ''\<newline>''], line_start := True, pending_space := False\<rparr>"

definition maybeNewline :: "printer \<Rightarrow> printer" where
  "maybeNewline p = (if line_start p then p else newline p)"

definition blockStart :: "string \<Rightarrow> printer \<Rightarrow> printer" where
  "blockStart c p = newline ((token (JStr c) (space p))\<lparr>indent := indent p + 1\<rparr>)"

definition blockEnd :: "string \<Rightarrow> printer \<Rightarrow> printer" where
  "blockEnd c p = token (JStr c) (newline (p\<lparr>indent := indent p - 1\<rparr>))"

fun exec_cmd :: "cmd \<Rightarrow> printer \<Rightarrow> printer" where
  "exec_cmd (PToken v) p = token v p"
| "exec_cmd PSpace p = space p"
| "exec_cmd PNewline p = newline p"
| "exec_cmd PMaybeNewline p = maybeNewline p"
| "exec_cmd (PBlockStart c) p = blockStart c p"
| "exec_cmd (PBlockEnd c) p = blockEnd c p"

definition exec :: "cmd list \<Rightarrow> printer \<Rightarrow> printer" where
  "exec cs p = fold exec_cmd cs p"

text \<open>
  Modelled from the spec: the entry point takes a root node and an optional parent,
  drives a printer of its own and returns the text the printer has accumulated; a
  failure returns no text.
\<close>

definition generate :: "jsval \<Rightarrow> jsval \<Rightarrow> error + string" where
  "generate node parent =
     (case print node parent of
        (cs, None) \<Rightarrow> Inr (buffer (exec cs new_printer))
      | (cs, Some e) \<Rightarrow> Inl e)"

section \<open>Node construction\<close>

text \<open>
  Modelled from the spec: the validator combinators of the assert module are not part of
  the types module. \<open>AssertValueType\<close> accepts a value of the given primitive kind,
  \<open>AssertType\<close> a node of the given type, \<open>AssertOneOf\<close> a value that one of the
  alternatives accepts, \<open>ArrayOf\<close> an array whose elements the inner validator
  accepts, \<open>AssertAny\<close> every value. A validator given as a thunk is the validator the
  thunk returns.
\<close>

datatype prim = TString | TNumber | TBoolean

datatype validator =
    AssertValueType prim
  | AssertType kind
  | AssertOneOf "validator list"
  | ArrayOf validator
  | AssertAny

fun validates :: "validator \<Rightarrow> jsval \<Rightarrow> bool" where
  "validates (AssertValueType TString) v = (case v of JStr s \<Rightarrow> True | _ \<Rightarrow> False)"
| "validates (AssertValueType TNumber) v = (case v of JNum n \<Rightarrow> True | _ \<Rightarrow> False)"
| "validates (AssertValueType TBoolean) v = (case v of JBool b \<Rightarrow> True | _ \<Rightarrow> False)"
| "validates (AssertType k) v = (kind_of v = Some k)"
| "validates (AssertOneOf ws) v = list_ex (\<lambda>w. validates w v) ws"
| "validates (ArrayOf w) v = (case v of JArr xs \<Rightarrow> list_all (validates w) xs | _ \<Rightarrow> False)"
| "validates AssertAny v = True"

text \<open>
  The \<^verbatim>\<open>fields\<close> of every definition, in the order of the source: the name, whether
  the field is optional, and its validator. The value field of SassMapProperty lists
  the definitions themselves; they are read as references to these types.
\<close>

type_synonym field_schema = "string \<times> bool \<times> validator"

fun fields :: "kind \<Rightarrow> field_schema list" where
  "fields Comment = [(''value'', False, AssertValueType TString)]"
| "fields Identifier = [(''name'', False, AssertValueType TString)]"
| "fields BlockStatement = [(''body'', False, ArrayOf AssertAny)]"
| "fields SassBoolean = [(''value'', False, AssertValueType TBoolean)]"
| "fields SassColor = [(''value'', False, AssertValueType TString)]"
| "fields SassFunction =
     [(''id'', False, AssertType Identifier),
      (''params'', True, ArrayOf (AssertOneOf [AssertType AssignmentPattern, AssertType Identifier])),
      (''body'', False, AssertType BlockStatement)]"
| "fields SassList =
     [(''elements'', False,
       ArrayOf (AssertOneOf [AssertType SassBoolean, AssertType SassList, AssertType SassMap,
                             AssertType SassNumber, AssertType SassString, AssertType Identifier]))]"
| "fields SassMap = [(''properties'', False, ArrayOf (AssertType SassMapProperty))]"
| "fields SassMapProperty =
     [(''key'', False, AssertType Identifier),
      (''value'', False,
       AssertOneOf [AssertType SassBoolean, AssertType SassNumber, AssertType SassString,
                    AssertType SassList, AssertType SassMap]),
      (''quoted'', True, AssertValueType TBoolean)]"
| "fields SassMixin =
     [(''id'', False, AssertType Identifier),
      (''params'', True, ArrayOf (AssertOneOf [AssertType AssignmentPattern, AssertType Identifier])),
      (''body'', False, AssertType BlockStatement)]"
| "fields SassNumber = [(''value'', False, AssertValueType TNumber)]"
| "fields SassString = [(''value'', False, AssertValueType TString)]"
| "fields SassValue = [(''value'', False, AssertAny)]"
| "fields SassFunctionCall =
     [(''id'', False, AssertType Identifier),
      (''params'', True,
       ArrayOf (AssertOneOf [AssertType Identifier, AssertType SassBoolean, AssertType SassList,
                             AssertType SassMap, AssertType SassNumber, AssertType SassString,
                             AssertType SassValue]))]"
| "fields SassMixinCall =
     [(''id'', False, AssertType Identifier),
      (''params'', True,
       ArrayOf (AssertOneOf [AssertType Identifier, AssertType SassBoolean, AssertType SassList,
                             AssertType SassMap, AssertType SassNumber, AssertType SassString])),
      (''body'', True, AssertType BlockStatement)]"
| "fields Rule =
     [(''declarations'', False, ArrayOf (AssertType Declaration)),
      (''selectors'', False, ArrayOf (AssertValueType TString))]"
| "fields Declaration =
     [(''property'', False, AssertValueType TString),
      (''value'', False, AssertOneOf [AssertValueType TString, AssertType CallExpression])]"
| "fields AtRule =
     [(''name'', False, AssertValueType TString),
      (''media'', False, AssertValueType TString),
      (''children'', False, ArrayOf (AssertOneOf [AssertType Rule]))]"
| "fields AtContent = []"
| "fields AtReturn = [(''argument'', False, AssertAny)]"
| "fields Assignment =
     [(''id'', False, AssertType Identifier),
      (''init'', False,
       AssertOneOf [AssertType CallExpression, AssertType SassBoolean, AssertType SassColor,
                    AssertType SassList, AssertType SassMap, AssertType SassNumber,
                    AssertType SassString, AssertType SassFunctionCall]),
      (''default'', True, AssertValueType TBoolean),
      (''global'', True, AssertValueType TBoolean)]"
| "fields AssignmentPattern =
     [(''left'', False, AssertType Identifier), (''right'', False, AssertAny)]"
| "fields RestPattern = [(''id'', False, AssertType Identifier)]"
| "fields SassImport = [(''path'', False, AssertValueType TString)]"
| "fields SassModule = [(''path'', False, AssertValueType TString)]"
| "fields SassForward = [(''path'', False, AssertValueType TString)]"
| "fields IfStatement =
     [(''test'', False, AssertAny),
      (''consequent'', True, AssertType BlockStatement),
      (''alternate'', True, AssertOneOf [AssertType IfStatement, AssertType BlockStatement])]"
| "fields LogicalExpression =
     [(''left'', False, AssertAny),
      (''operator'', False, AssertValueType TString),
      (''right'', False, AssertAny)]"
| "fields CallExpression =
     [(''callee'', False, AssertType Identifier), (''arguments'', True, ArrayOf AssertAny)]"
| "fields Newline = []"
| "fields StyleSheet =
     [(''children'', False,
       ArrayOf (AssertOneOf [AssertType Assignment, AssertType AtRule, AssertType Comment,
                             AssertType IfStatement, AssertType Rule, AssertType SassFunction,
                             AssertType SassImport, AssertType SassMixin,
                             AssertType SassMixinCall, AssertType Newline]))]"

text \<open>
  Modelled from the spec: the constructor made by \<^verbatim>\<open>makeInvocableDefinition\<close> is
  not part of the types module. It takes a field map, runs the validator of every
  declared field on the value supplied for it (an optional field that is not supplied is
  passed over), and fails on the first field whose value is rejected with a
  SchemaValidationError naming the type, the field and the value; otherwise it returns
  the node. The reference of the new object is an argument.
\<close>

definition field_ok :: "(string \<times> jsval) list \<Rightarrow> field_schema \<Rightarrow> bool" where
  "field_ok fs e =
     (case e of (f, opt, w) \<Rightarrow>
        if opt \<and> field fs f = JUndefined then True else validates w (field fs f))"

fun check_fields :: "kind \<Rightarrow> field_schema list \<Rightarrow> (string \<times> jsval) list \<Rightarrow> error option" where
  "check_fields k [] fs = None"
| "check_fields k (e # es) fs =
     (if field_ok fs e then check_fields k es fs
      else Some (SchemaValidationError k (fst e) (field fs (fst e))))"

definition makeInvocableDefinition :: "kind \<Rightarrow> nat \<Rightarrow> (string \<times> jsval) list \<Rightarrow> error + jsval" where
  "makeInvocableDefinition k r fs =
     (case check_fields k (fields k) fs of
        Some e \<Rightarrow> Inl e
      | None \<Rightarrow> Inr (JNode r k fs))"

section \<open>Notions of the specification\<close>

text \<open>
  The fixed set of parent types under which the specification gives an Identifier its
  sigil.
\<close>

definition sigil_parents :: "kind set" where
  "sigil_parents =
     {Assignment, AssignmentPattern, CallExpression, LogicalExpression, SassMixin,
      SassList, RestPattern, SassFunction}"


text \<open>The statement of a declaration whose value is a string.\<close>

definition declaration_cmds :: "jsval \<Rightarrow> cmd list" where
  "declaration_cmds d =
     [PToken (get_prop d ''property''), PToken (JStr '':''), PSpace,
      PToken (get_prop d ''value''), PToken (JStr '';'')]"

text \<open>The node is the first element of the body array of its parent.\<close>

definition first_in_body :: "jsval \<Rightarrow> jsval \<Rightarrow> bool" where
  "first_in_body parent node =
     (case get_prop parent ''body'' of
        JArr xs \<Rightarrow> xs \<noteq> [] \<and> hd xs = node
      | _ \<Rightarrow> False)"


section \<open>Properties of the emission routines\<close>

lemma steps_Nil [simp]: "steps [] = skip"
  by (simp add: steps_def)

lemma steps_Cons [simp]: "steps (e # es) = and_then e (steps es)"
  by (simp add: steps_def)

lemma and_then_skip [simp]: "and_then skip e = e"
  by (simp add: skip_def)

lemma and_then_skip_right [simp]: "and_then e skip = e"
  by (cases e; cases "snd e") (auto simp: skip_def)

lemma and_then_emit [simp]: "and_then (emit c) e = (c # fst e, snd e)"
  by (simp add: emit_def)

lemma and_then_tok [simp]: "and_then (tok s) e = (PToken (JStr s) # fst e, snd e)"
  by (simp add: tok_def)

lemma and_then_throw [simp]: "and_then (throw x) e = ([], Some x)"
  by (simp add: throw_def)

lemma and_then_assoc: "and_then (and_then a b) c = and_then a (and_then b c)"
proof (cases a)
  case (Pair cs x)
  show ?thesis
  proof (cases x)
    case None
    with Pair show ?thesis
      by (cases b; cases "snd b") auto
  next
    case (Some e)
    with Pair show ?thesis by simp
  qed
qed

lemma steps_append: "steps (as @ bs) = and_then (steps as) (steps bs)"
  by (induction as) (simp_all add: and_then_assoc)

lemma print_each_plain:
  "print_each False sep xs p = steps (sep_by [(sep, None)] (map (\<lambda>x. [print x p]) xs))"
proof (induction xs)
  case Nil
  show ?case by simp
next
  case (Cons x xs)
  then show ?case by (cases xs) simp_all
qed

lemma is_sigil_parent_iff:
  "is_sigil_parent p \<longleftrightarrow> (\<exists>k \<in> sigil_parents. kind_of p = Some k)"
  by (cases p) (auto simp: is_sigil_parent_def sigil_parents_def)

lemma print_Identifier:
  "print (JNode r Identifier fs) parent =
     ((if \<exists>k \<in> sigil_parents. kind_of parent = Some k then [PToken (JStr ''$'')] else [])
        @ [PToken (field fs ''name'')], None)"
  by (simp add: is_sigil_parent_iff emit_def skip_def)

lemma print_Identifier_under:
  "kind_of x = Some Identifier \<Longrightarrow> k \<in> sigil_parents \<Longrightarrow>
   print x (JNode r k fs) = ([PToken (JStr ''$''), PToken (get_prop x ''name'')], None)"
  by (cases x) (auto simp: print_Identifier simp del: print.simps)

text \<open>
  C1. The Identifier routine emits the token \<^verbatim>\<open>$\<close> before the name exactly when the
  parent it is given has one of the types Assignment, AssignmentPattern, CallExpression,
  LogicalExpression, SassMixin, SassList, RestPattern, SassFunction. So the id of an
  Assignment prints as \<^verbatim>\<open>$\<close> and the name; every parameter of a SassFunction is
  printed with the SassFunction as parent, an Identifier among them as \<^verbatim>\<open>$\<close> and the
  name; and the callee of a CallExpression and the id of a SassFunctionCall or
  SassMixinCall print as the bare name, followed by the opening parenthesis.
\<close>

theorem Identifier_sigil:
  "print (JNode i Identifier fs) parent =
     ((if \<exists>k \<in> sigil_parents. kind_of parent = Some k then [PToken (JStr ''$'')] else [])
        @ [PToken (field fs ''name'')], None)
   \<and> (field as ''id'' = JNode i Identifier fs \<longrightarrow>
        (\<exists>rest e. print (JNode a Assignment as) p1
           = (PToken (JStr ''$'') # PToken (field fs ''name'') # rest, e)))
   \<and> (field sf ''params'' = JArr ps \<longrightarrow>
        print (JNode f SassFunction sf) p2
          = steps ([tok ''@function'', emit PSpace, print (field sf ''id'') p2, tok ''('']
                   @ sep_by [([PToken (JStr '',''), PSpace], None)]
                       (map (\<lambda>x. [print x (JNode f SassFunction sf)]) ps)
                   @ [tok '')'', emit PSpace, print (field sf ''body'') p2])
        \<and> (\<forall>x \<in> set ps. kind_of x = Some Identifier \<longrightarrow>
              print x (JNode f SassFunction sf)
                = ([PToken (JStr ''$''), PToken (get_prop x ''name'')], None)))
   \<and> (field ce ''callee'' = JNode i Identifier fs \<longrightarrow>
        (\<exists>rest e. print (JNode c CallExpression ce) p3
           = (PToken (field fs ''name'') # PToken (JStr ''('') # rest, e)))
   \<and> (field fc ''id'' = JNode i Identifier fs \<longrightarrow>
        (\<exists>rest e. print (JNode c SassFunctionCall fc) p4
           = (PSpace # PToken (field fs ''name'') # PToken (JStr ''('') # rest, e)))
   \<and> (field mc ''id'' = JNode i Identifier fs \<longrightarrow>
        (\<exists>rest e. print (JNode c SassMixinCall mc) p5
           = (PToken (JStr ''@include'') # PSpace # PToken (field fs ''name'')
                # PToken (JStr ''('') # rest, e)))"
proof (intro conjI impI ballI)
  show "print (JNode i Identifier fs) parent =
     ((if \<exists>k \<in> sigil_parents. kind_of parent = Some k then [PToken (JStr ''$'')] else [])
        @ [PToken (field fs ''name'')], None)"
    by (rule print_Identifier)
next
  assume "field as ''id'' = JNode i Identifier fs"
  then show "\<exists>rest e. print (JNode a Assignment as) p1
           = (PToken (JStr ''$'') # PToken (field fs ''name'') # rest, e)"
    by (simp add: is_sigil_parent_def emit_def)
next
  assume "field sf ''params'' = JArr ps"
  then show "print (JNode f SassFunction sf) p2
          = steps ([tok ''@function'', emit PSpace, print (field sf ''id'') p2, tok ''('']
                   @ sep_by [([PToken (JStr '',''), PSpace], None)]
                       (map (\<lambda>x. [print x (JNode f SassFunction sf)]) ps)
                   @ [tok '')'', emit PSpace, print (field sf ''body'') p2])"
    by (simp add: print_each_plain steps_append and_then_assoc)
next
  fix x
  assume "kind_of x = Some Identifier"
  then show "print x (JNode f SassFunction sf)
                = ([PToken (JStr ''$''), PToken (get_prop x ''name'')], None)"
    by (rule print_Identifier_under) (simp add: sigil_parents_def)
next
  assume "field ce ''callee'' = JNode i Identifier fs"
  then show "\<exists>rest e. print (JNode c CallExpression ce) p3
           = (PToken (field fs ''name'') # PToken (JStr ''('') # rest, e)"
    by (simp add: is_sigil_parent_def emit_def)
next
  assume "field fc ''id'' = JNode i Identifier fs"
  then show "\<exists>rest e. print (JNode c SassFunctionCall fc) p4
           = (PSpace # PToken (field fs ''name'') # PToken (JStr ''('') # rest, e)"
    by (simp add: is_sigil_parent_def emit_def)
next
  assume "field mc ''id'' = JNode i Identifier fs"
  then show "\<exists>rest e. print (JNode c SassMixinCall mc) p5
           = (PToken (JStr ''@include'') # PSpace # PToken (field fs ''name'')
                # PToken (JStr ''('') # rest, e)"
    by (simp add: is_sigil_parent_def emit_def)
qed

lemma and_then_ok: "snd a = None \<Longrightarrow> and_then a b = (fst a @ fst b, snd b)"
  by (cases a) simp

theorem Identifier_sigil_witness:
  "print (JNode 2 Identifier [(''name'', JStr ''x'')]) (JNode 7 Rule []) = ([PToken (JStr ''x'')], None)
   \<and> print (JNode 1 Assignment
              [(''id'', JNode 2 Identifier [(''name'', JStr ''x'')]),
               (''init'', JNode 3 SassNumber [(''value'', JNum ''1'')])]) JUndefined
       = ([PToken (JStr ''$''), PToken (JStr ''x''), PToken (JStr '':''), PSpace,
           PToken (JNum ''1''), PToken (JStr '';'')], None)
   \<and> print (JNode 4 SassFunction
              [(''id'', JNode 5 Identifier [(''name'', JStr ''f'')]),
               (''params'', JArr [JNode 2 Identifier [(''name'', JStr ''x'')]]),
               (''body'', JNode 6 BlockStatement [(''body'', JArr [])])]) JUndefined
       = ([PToken (JStr ''@function''), PSpace, PToken (JStr ''f''), PToken (JStr ''(''),
           PToken (JStr ''$''), PToken (JStr ''x''), PToken (JStr '')''), PSpace,
           PBlockStart ''{'', PBlockEnd ''}''], None)
   \<and> (\<exists>rest e. print (JNode 8 CallExpression
              [(''callee'', JNode 2 Identifier [(''name'', JStr ''x'')])]) JUndefined
         = (PToken (JStr ''x'') # PToken (JStr ''('') # rest, e))
   \<and> (\<exists>rest e. print (JNode 8 SassFunctionCall
              [(''id'', JNode 2 Identifier [(''name'', JStr ''x'')])]) JUndefined
         = (PSpace # PToken (JStr ''x'') # PToken (JStr ''('') # rest, e))
   \<and> (\<exists>rest e. print (JNode 8 SassMixinCall
              [(''id'', JNode 2 Identifier [(''name'', JStr ''x'')])]) JUndefined
         = (PToken (JStr ''@include'') # PSpace # PToken (JStr ''x'') # PToken (JStr ''('') # rest, e))"
proof -
  let ?x = "[(''name'', JStr ''x'')]"
  let ?as = "[(''id'', JNode 2 Identifier ?x), (''init'', JNode 3 SassNumber [(''value'', JNum ''1'')])]"
  let ?sf = "[(''id'', JNode 5 Identifier [(''name'', JStr ''f'')]),
              (''params'', JArr [JNode 2 Identifier ?x]),
              (''body'', JNode 6 BlockStatement [(''body'', JArr [])])]"
  let ?ce = "[(''callee'', JNode 2 Identifier ?x)]"
  let ?fc = "[(''id'', JNode 2 Identifier ?x)]"
  have h: "field ?as ''id'' = JNode 2 Identifier ?x"
    "field ?sf ''params'' = JArr [JNode 2 Identifier ?x]"
    "field ?ce ''callee'' = JNode 2 Identifier ?x"
    "field ?fc ''id'' = JNode 2 Identifier ?x"
    by (simp_all add: field_def)
  note t = Identifier_sigil [where i = 2 and fs = ?x and parent = "JNode 7 Rule []"
      and as = ?as and a = 1 and ?p1.0 = JUndefined
      and sf = ?sf and ps = "[JNode 2 Identifier ?x]" and f = 4 and ?p2.0 = JUndefined
      and ce = ?ce and c = 8 and ?p3.0 = JUndefined
      and fc = ?fc and ?p4.0 = JUndefined and mc = ?fc and ?p5.0 = JUndefined]
  have 1: "print (JNode 2 Identifier ?x) (JNode 7 Rule []) = ([PToken (JStr ''x'')], None)"
    using t by (simp add: sigil_parents_def field_def del: print.simps)
  have 2: "print (JNode 1 Assignment ?as) JUndefined
       = ([PToken (JStr ''$''), PToken (JStr ''x''), PToken (JStr '':''), PSpace,
           PToken (JNum ''1''), PToken (JStr '';'')], None)"
    by (simp add: field_def is_sigil_parent_def emit_def assignment_spacing_def skip_def)
  have 3: "print (JNode 4 SassFunction ?sf) JUndefined
       = ([PToken (JStr ''@function''), PSpace, PToken (JStr ''f''), PToken (JStr ''(''),
           PToken (JStr ''$''), PToken (JStr ''x''), PToken (JStr '')''), PSpace,
           PBlockStart ''{'', PBlockEnd ''}''], None)"
    using t h(2)
    by (simp add: field_def is_sigil_parent_def emit_def skip_def tok_def)
  from t h 1 2 3 show ?thesis
    by (simp del: print.simps add: field_def)
qed

text \<open>
  The two call routines are the one place where the sigil does not come from the
  Identifier routine: they emit \<^verbatim>\<open>$\<close> themselves before an Identifier parameter,
  which then prints its bare name, its parent being none of the sigil parents.
\<close>

lemma call_parameter_sigil:
  "kind_of x = Some Identifier \<Longrightarrow> k = SassFunctionCall \<or> k = SassMixinCall \<Longrightarrow>
     print x (JNode r k fs) = ([PToken (get_prop x ''name'')], None)
   \<and> print_each True sep [x] (JNode r k fs)
       = ([PToken (JStr ''$''), PToken (get_prop x ''name'')], None)"
  by (cases x)
     (auto simp: param_sigil_def is_sigil_parent_def emit_def skip_def tok_def)

text \<open>
  C9. In a CallExpression the callee is printed with no parent, so an Identifier callee
  is the bare name, and every argument is printed with the CallExpression as parent, so
  an Identifier argument is \<^verbatim>\<open>$\<close> and the name: the same Identifier prints
  differently in the two positions.
\<close>

theorem CallExpression_positions:
  "field ce ''callee'' = JNode i Identifier fs \<Longrightarrow> field ce ''arguments'' = JArr as \<Longrightarrow>
     print (JNode i Identifier fs) JUndefined = ([PToken (field fs ''name'')], None)
   \<and> print (JNode c CallExpression ce) parent
       = steps ([print (JNode i Identifier fs) JUndefined, tok ''('']
                @ sep_by [([PToken (JStr '',''), PSpace], None)]
                    (map (\<lambda>x. [print x (JNode c CallExpression ce)]) as)
                @ [tok '')''])
   \<and> (\<forall>x \<in> set as. kind_of x = Some Identifier \<longrightarrow>
         print x (JNode c CallExpression ce)
           = ([PToken (JStr ''$''), PToken (get_prop x ''name'')], None))"
proof (intro conjI ballI impI)
  show "print (JNode i Identifier fs) JUndefined = ([PToken (field fs ''name'')], None)"
    by (simp add: print_Identifier del: print.simps)
next
  assume "field ce ''callee'' = JNode i Identifier fs" "field ce ''arguments'' = JArr as"
  then show "print (JNode c CallExpression ce) parent
       = steps ([print (JNode i Identifier fs) JUndefined, tok ''('']
                @ sep_by [([PToken (JStr '',''), PSpace], None)]
                    (map (\<lambda>x. [print x (JNode c CallExpression ce)]) as)
                @ [tok '')''])"
    by (simp add: print_each_plain steps_append and_then_assoc)
next
  fix x
  assume "kind_of x = Some Identifier"
  then show "print x (JNode c CallExpression ce)
           = ([PToken (JStr ''$''), PToken (get_prop x ''name'')], None)"
    by (rule print_Identifier_under) (simp add: sigil_parents_def)
qed

theorem CallExpression_positions_witness:
  "print (JNode 1 CallExpression
            [(''callee'', JNode 2 Identifier [(''name'', JStr ''x'')]),
             (''arguments'', JArr [JNode 2 Identifier [(''name'', JStr ''x'')],
                                   JNode 3 SassNumber [(''value'', JNum ''1'')]])]) JUndefined
     = ([PToken (JStr ''x''), PToken (JStr ''(''), PToken (JStr ''$''), PToken (JStr ''x''),
         PToken (JStr '',''), PSpace, PToken (JNum ''1''), PToken (JStr '')'')], None)"
proof -
  let ?x = "JNode 2 Identifier [(''name'', JStr ''x'')]"
  let ?as = "[?x, JNode 3 SassNumber [(''value'', JNum ''1'')]]"
  let ?ce = "[(''callee'', ?x), (''arguments'', JArr ?as)]"
  have h1: "field ?ce ''callee'' = ?x" and h2: "field ?ce ''arguments'' = JArr ?as"
    by (simp_all add: field_def)
  have x: "kind_of ?x = Some Identifier" "?x \<in> set ?as"
    by simp_all
  have n: "print (JNode 3 SassNumber [(''value'', JNum ''1'')]) (JNode 1 CallExpression ?ce)
      = ([PToken (JNum ''1'')], None)"
    by (simp add: field_def emit_def)
  note t = CallExpression_positions [OF h1 h2, of 1 JUndefined]
  from t x have "print ?x (JNode 1 CallExpression ?ce) = ([PToken (JStr ''$''), PToken (JStr ''x'')], None)"
    by (auto simp add: field_def simp del: print.simps)
  with t n show ?thesis
    by (simp add: field_def tok_def emit_def del: print.simps)
qed

lemma split_on_not_Nil [simp]: "split_on c s \<noteq> []"
  by (induction s) (auto split: list.splits)

lemma comment_lines_eq:
  "comment_lines ls = (sep_by [PNewline] (map (\<lambda>l. [PToken (JStr ''// ''), PToken (JStr l)]) ls), None)"
proof (induction ls)
  case Nil
  show ?case by (simp add: skip_def)
next
  case (Cons l ls)
  then show ?case by (cases ls) (simp_all add: skip_def)
qed

lemma exec_Nil [simp]: "exec [] p = p"
  by (simp add: exec_def)

lemma exec_Cons [simp]: "exec (c # cs) p = exec cs (exec_cmd c p)"
  by (simp add: exec_def)

lemma exec_append [simp]: "exec (as @ bs) p = exec bs (exec as p)"
  by (simp add: exec_def)

lemma buffer_comment_lines:
  "ls \<noteq> [] \<Longrightarrow> indent p = 0 \<Longrightarrow> \<not> pending_space p \<Longrightarrow>
   buffer (exec (sep_by [PNewline] (map (\<lambda>l. [PToken (JStr ''// ''), PToken (JStr l)]) ls)) p)
     = buffer p @ sep_by [CHR ''\<newline>''] (map (\<lambda>l. ''// '' @ l) ls)"
proof (induction ls arbitrary: p)
  case Nil
  then show ?case by simp
next
  case (Cons l ls)
  show ?case
  proof (cases ls)
    case Nil
    with Cons.prems show ?thesis by (simp add: token_def)
  next
    case (Cons m ms)
    let ?q = "newline (token (JStr l) (token (JStr ''// '') p))"
    have q: "indent ?q = 0" "\<not> pending_space ?q"
      "buffer ?q = buffer p @ ''// '' @ l @ [CHR ''\<newline>'']"
      using Cons.prems by (simp_all add: token_def newline_def)
    have "ls \<noteq> []" using Cons by simp
    from Cons.IH [OF this q(1) q(2)] q(3) Cons show ?thesis by simp
  qed
qed

text \<open>
  C6. A Comment whose value is the empty string, undefined or null emits nothing, and
  its rendering is the empty text; a Comment whose value is a non-empty string emits,
  for each line of the value split at the newline character, the token \<^verbatim>\<open>// \<close> and
  the line, with a newline between two lines and none after the last.
\<close>

theorem Comment_emission:
  "(field fs ''value'' = JStr [] \<or> field fs ''value'' = JUndefined \<or> field fs ''value'' = JNull
      \<longrightarrow> print (JNode r Comment fs) parent = ([], None)
          \<and> generate (JNode r Comment fs) parent = Inr [])
   \<and> (field fs ''value'' = JStr s \<and> s \<noteq> []
      \<longrightarrow> print (JNode r Comment fs) parent
            = (sep_by [PNewline]
                 (map (\<lambda>l. [PToken (JStr ''// ''), PToken (JStr l)]) (split_on CHR ''\<newline>'' s)),
               None)
          \<and> generate (JNode r Comment fs) parent
            = Inr (sep_by [CHR ''\<newline>''] (map (\<lambda>l. ''// '' @ l) (split_on CHR ''\<newline>'' s))))"
proof (intro conjI impI)
  assume "field fs ''value'' = JStr [] \<or> field fs ''value'' = JUndefined \<or> field fs ''value'' = JNull"
  then show e: "print (JNode r Comment fs) parent = ([], None)"
    by (auto simp: skip_def)
  show "generate (JNode r Comment fs) parent = Inr []"
    by (simp add: generate_def e new_printer_def del: print.simps)
next
  assume a: "field fs ''value'' = JStr s \<and> s \<noteq> []"
  then show e: "print (JNode r Comment fs) parent
            = (sep_by [PNewline]
                 (map (\<lambda>l. [PToken (JStr ''// ''), PToken (JStr l)]) (split_on CHR ''\<newline>'' s)),
               None)"
    by (simp add: comment_lines_eq)
  show "generate (JNode r Comment fs) parent
            = Inr (sep_by [CHR ''\<newline>''] (map (\<lambda>l. ''// '' @ l) (split_on CHR ''\<newline>'' s)))"
    using buffer_comment_lines [of "split_on CHR ''\<newline>'' s" new_printer]
    by (simp add: generate_def e del: print.simps) (simp add: new_printer_def)
qed

theorem Comment_emission_witness:
  "generate (JNode 1 Comment [(''value'', JUndefined)]) JUndefined = Inr []
   \<and> print (JNode 2 Comment [(''value'', JStr ''a\<newline>b'')]) JUndefined
       = ([PToken (JStr ''// ''), PToken (JStr ''a''), PNewline,
           PToken (JStr ''// ''), PToken (JStr ''b'')], None)
   \<and> generate (JNode 2 Comment [(''value'', JStr ''a\<newline>b'')]) JUndefined
       = Inr ''// a\<newline>// b''"
proof -
  have h1: "field [(''value'', JUndefined)] ''value'' = JUndefined"
    by (simp add: field_def)
  have h2: "field [(''value'', JStr ''a\<newline>b'')] ''value'' = JStr ''a\<newline>b'' \<and> ''a\<newline>b'' \<noteq> []"
    by (simp add: field_def)
  show ?thesis
    using Comment_emission [where fs = "[(''value'', JUndefined)]" and r = 1 and parent = JUndefined] h1
      Comment_emission [where fs = "[(''value'', JStr ''a\<newline>b'')]" and s = "''a\<newline>b''" and r = 2
        and parent = JUndefined] h2
    by (simp del: print.simps)
qed

lemma check_fields_first:
  "list_all (field_ok fs) pre \<Longrightarrow> \<not> field_ok fs e \<Longrightarrow>
   check_fields k (pre @ e # post) fs = Some (SchemaValidationError k (fst e) (field fs (fst e)))"
  by (induction pre) simp_all

lemma check_fields_some:
  "\<not> list_all (field_ok fs) es \<Longrightarrow>
   \<exists>e \<in> set es. \<not> field_ok fs e
      \<and> check_fields k es fs = Some (SchemaValidationError k (fst e) (field fs (fst e)))"
  by (induction es) auto

text \<open>
  C3. A constructor fails on the first declared field whose value its validator
  rejects, with a SchemaValidationError that names the type, the field and the value, and
  returns no node; whenever some field is rejected, construction fails so. A SassNumber
  given the value \<^verbatim>\<open>"not-a-number"\<close> fails naming SassNumber and \<^verbatim>\<open>value\<close>, and a
  Rule whose declarations are no array fails naming Rule and \<^verbatim>\<open>declarations\<close>.
\<close>

theorem construction_fails_on_first_violation:
  "(fields k = pre @ (f, opt, w) # post \<and> list_all (field_ok fs) pre \<and> \<not> field_ok fs (f, opt, w)
      \<longrightarrow> makeInvocableDefinition k r fs = Inl (SchemaValidationError k f (field fs f)))
   \<and> (\<not> list_all (field_ok fs) (fields k)
      \<longrightarrow> (\<exists>e \<in> set (fields k). \<not> field_ok fs e
             \<and> makeInvocableDefinition k r fs
                 = Inl (SchemaValidationError k (fst e) (field fs (fst e)))))
   \<and> makeInvocableDefinition SassNumber r [(''value'', JStr ''not-a-number'')]
       = Inl (SchemaValidationError SassNumber ''value'' (JStr ''not-a-number''))
   \<and> ((\<forall>xs. field gs ''declarations'' \<noteq> JArr xs)
      \<longrightarrow> makeInvocableDefinition Rule r gs
           = Inl (SchemaValidationError Rule ''declarations'' (field gs ''declarations'')))"
proof (intro conjI impI)
  assume "fields k = pre @ (f, opt, w) # post \<and> list_all (field_ok fs) pre \<and> \<not> field_ok fs (f, opt, w)"
  then show "makeInvocableDefinition k r fs = Inl (SchemaValidationError k f (field fs f))"
    using check_fields_first [of fs pre "(f, opt, w)" k post]
    by (simp add: makeInvocableDefinition_def)
next
  assume "\<not> list_all (field_ok fs) (fields k)"
  from check_fields_some [OF this, of k]
  show "\<exists>e \<in> set (fields k). \<not> field_ok fs e
             \<and> makeInvocableDefinition k r fs
                 = Inl (SchemaValidationError k (fst e) (field fs (fst e)))"
    by (auto simp: makeInvocableDefinition_def)
next
  show "makeInvocableDefinition SassNumber r [(''value'', JStr ''not-a-number'')]
       = Inl (SchemaValidationError SassNumber ''value'' (JStr ''not-a-number''))"
    by (simp add: makeInvocableDefinition_def field_ok_def field_def)
next
  assume "\<forall>xs. field gs ''declarations'' \<noteq> JArr xs"
  then have "\<not> validates (ArrayOf (AssertType Declaration)) (field gs ''declarations'')"
    by (cases "field gs ''declarations''") simp_all
  then show "makeInvocableDefinition Rule r gs
           = Inl (SchemaValidationError Rule ''declarations'' (field gs ''declarations''))"
    by (simp add: makeInvocableDefinition_def field_ok_def)
qed

theorem construction_fails_on_first_violation_witness:
  "makeInvocableDefinition Assignment 1
      [(''id'', JNode 2 Identifier [(''name'', JStr ''x'')]), (''init'', JStr ''red''),
       (''default'', JNum ''1'')]
     = Inl (SchemaValidationError Assignment ''init'' (JStr ''red''))
   \<and> makeInvocableDefinition Rule 3 [(''selectors'', JArr []), (''declarations'', JStr ''color: red'')]
     = Inl (SchemaValidationError Rule ''declarations'' (JStr ''color: red''))"
proof -
  let ?fs = "[(''id'', JNode 2 Identifier [(''name'', JStr ''x'')]), (''init'', JStr ''red''),
       (''default'', JNum ''1'')]"
  let ?gs = "[(''selectors'', JArr []), (''declarations'', JStr ''color: red'')]"
  let ?w = "AssertOneOf [AssertType CallExpression, AssertType SassBoolean, AssertType SassColor,
                    AssertType SassList, AssertType SassMap, AssertType SassNumber,
                    AssertType SassString, AssertType SassFunctionCall]"
  have h: "fields Assignment = [(''id'', False, AssertType Identifier)] @ (''init'', False, ?w)
             # [(''default'', True, AssertValueType TBoolean), (''global'', True, AssertValueType TBoolean)]
           \<and> list_all (field_ok ?fs) [(''id'', False, AssertType Identifier)]
           \<and> \<not> field_ok ?fs (''init'', False, ?w)"
    by (simp add: field_ok_def field_def)
  have g: "\<forall>xs. field ?gs ''declarations'' \<noteq> JArr xs"
    by (simp add: field_def)
  have n: "\<not> list_all (field_ok ?fs) (fields Assignment)"
    by (simp add: field_ok_def field_def)
  note t = construction_fails_on_first_violation [where k = Assignment and fs = ?fs and r = 1
      and pre = "[(''id'', False, AssertType Identifier)]" and f = "''init''" and opt = False
      and w = ?w and gs = ?gs
      and post = "[(''default'', True, AssertValueType TBoolean), (''global'', True, AssertValueType TBoolean)]"]
    construction_fails_on_first_violation [where r = 3 and gs = ?gs]
  from t h g n show ?thesis
    by (simp add: field_def)
qed

lemma print_IfStatement:
  "print (JNode r IfStatement fs) parent
     = steps [if kind_of parent = Some IfStatement
              then ([PSpace, PToken (JStr ''if'')], None)
              else ([PToken (JStr ''@if'')], None),
              emit PSpace,
              print (field fs ''test'') (JNode r IfStatement fs),
              print (field fs ''consequent'') (JNode r IfStatement fs),
              if truthy (field fs ''alternate'')
              then steps [tok ''@else'', print (field fs ''alternate'') (JNode r IfStatement fs)]
              else skip]"
proof -
  have "truthy parent \<and> kind_of parent = Some IfStatement \<longleftrightarrow> kind_of parent = Some IfStatement"
    by (cases parent) auto
  then show ?thesis
    by (simp add: tok_def emit_def)
qed

lemma IfStatement_nested_head:
  "\<exists>rest e. print (JNode a IfStatement gs) (JNode r IfStatement fs)
     = (PSpace # PToken (JStr ''if'') # PSpace # rest, e)"
  unfolding print_IfStatement by simp

text \<open>
  C2. An IfStatement emits \<^verbatim>\<open>@if\<close> when its parent is no IfStatement, and a space
  and \<^verbatim>\<open>if\<close> when it is one; after the test and the consequent, a present alternate
  is preceded by \<^verbatim>\<open>@else\<close> and printed with the IfStatement as parent, so an
  alternate that is an IfStatement continues the text with \<^verbatim>\<open>@else if\<close>.
\<close>

theorem IfStatement_chain:
  "print (JNode r IfStatement fs) parent
     = steps [if kind_of parent = Some IfStatement
              then ([PSpace, PToken (JStr ''if'')], None)
              else ([PToken (JStr ''@if'')], None),
              emit PSpace,
              print (field fs ''test'') (JNode r IfStatement fs),
              print (field fs ''consequent'') (JNode r IfStatement fs),
              if truthy (field fs ''alternate'')
              then steps [tok ''@else'', print (field fs ''alternate'') (JNode r IfStatement fs)]
              else skip]
   \<and> (kind_of parent \<noteq> Some IfStatement \<longrightarrow>
        (\<exists>rest e. print (JNode r IfStatement fs) parent
           = (PToken (JStr ''@if'') # PSpace # rest, e)))
   \<and> (kind_of parent = Some IfStatement \<longrightarrow>
        (\<exists>rest e. print (JNode r IfStatement fs) parent
           = (PSpace # PToken (JStr ''if'') # PSpace # rest, e)))
   \<and> (field fs ''alternate'' = JNode a IfStatement gs
        \<and> snd (print (field fs ''test'') (JNode r IfStatement fs)) = None
        \<and> snd (print (field fs ''consequent'') (JNode r IfStatement fs)) = None \<longrightarrow>
        (\<exists>rest e. print (JNode r IfStatement fs) parent
           = ((if kind_of parent = Some IfStatement
               then [PSpace, PToken (JStr ''if'')] else [PToken (JStr ''@if'')])
              @ [PSpace]
              @ fst (print (field fs ''test'') (JNode r IfStatement fs))
              @ fst (print (field fs ''consequent'') (JNode r IfStatement fs))
              @ [PToken (JStr ''@else''), PSpace, PToken (JStr ''if''), PSpace] @ rest, e)))"
proof (intro conjI impI)
  show "print (JNode r IfStatement fs) parent
     = steps [if kind_of parent = Some IfStatement
              then ([PSpace, PToken (JStr ''if'')], None)
              else ([PToken (JStr ''@if'')], None),
              emit PSpace,
              print (field fs ''test'') (JNode r IfStatement fs),
              print (field fs ''consequent'') (JNode r IfStatement fs),
              if truthy (field fs ''alternate'')
              then steps [tok ''@else'', print (field fs ''alternate'') (JNode r IfStatement fs)]
              else skip]"
    by (rule print_IfStatement)
next
  assume "kind_of parent \<noteq> Some IfStatement"
  then show "\<exists>rest e. print (JNode r IfStatement fs) parent
         = (PToken (JStr ''@if'') # PSpace # rest, e)"
    unfolding print_IfStatement by simp
next
  assume "kind_of parent = Some IfStatement"
  then show "\<exists>rest e. print (JNode r IfStatement fs) parent
         = (PSpace # PToken (JStr ''if'') # PSpace # rest, e)"
    unfolding print_IfStatement by simp
next
  let ?n = "JNode r IfStatement fs"
  assume a: "field fs ''alternate'' = JNode a IfStatement gs
      \<and> snd (print (field fs ''test'') ?n) = None
      \<and> snd (print (field fs ''consequent'') ?n) = None"
  obtain rest e where
    "print (JNode a IfStatement gs) ?n = (PSpace # PToken (JStr ''if'') # PSpace # rest, e)"
    using IfStatement_nested_head by blast
  with a show "\<exists>rest e. print ?n parent
         = ((if kind_of parent = Some IfStatement
             then [PSpace, PToken (JStr ''if'')] else [PToken (JStr ''@if'')])
            @ [PSpace]
            @ fst (print (field fs ''test'') ?n)
            @ fst (print (field fs ''consequent'') ?n)
            @ [PToken (JStr ''@else''), PSpace, PToken (JStr ''if''), PSpace] @ rest, e)"
    unfolding print_IfStatement [of r fs parent] by (simp add: and_then_ok del: print.simps)
qed

theorem IfStatement_chain_witness:
  "generate (JNode 7 IfStatement
      [(''test'', JNode 2 SassValue [(''value'', JStr ''$a'')]),
       (''consequent'', JNode 3 BlockStatement [(''body'', JArr [])]),
       (''alternate'', JNode 4 IfStatement
          [(''test'', JNode 5 SassValue [(''value'', JStr ''$c'')]),
           (''consequent'', JNode 6 BlockStatement [(''body'', JArr [])])])]) JUndefined
     = Inr ''@if $a {\<newline>\<newline>}@else if $c {\<newline>\<newline>}''"
proof -
  let ?gs = "[(''test'', JNode 5 SassValue [(''value'', JStr ''$c'')]),
           (''consequent'', JNode 6 BlockStatement [(''body'', JArr [])])]"
  let ?fs = "[(''test'', JNode 2 SassValue [(''value'', JStr ''$a'')]),
       (''consequent'', JNode 3 BlockStatement [(''body'', JArr [])]),
       (''alternate'', JNode 4 IfStatement ?gs)]"
  have f: "field ?fs ''test'' = JNode 2 SassValue [(''value'', JStr ''$a'')]"
    "field ?fs ''consequent'' = JNode 3 BlockStatement [(''body'', JArr [])]"
    "field ?fs ''alternate'' = JNode 4 IfStatement ?gs"
    "field ?gs ''test'' = JNode 5 SassValue [(''value'', JStr ''$c'')]"
    "field ?gs ''consequent'' = JNode 6 BlockStatement [(''body'', JArr [])]"
    "field ?gs ''alternate'' = JUndefined"
    by (simp_all add: field_def)
  have leaf: "print (JNode 2 SassValue [(''value'', JStr ''$a'')]) p = ([PToken (JStr ''$a'')], None)"
    "print (JNode 5 SassValue [(''value'', JStr ''$c'')]) p = ([PToken (JStr ''$c'')], None)"
    "print (JNode 3 BlockStatement [(''body'', JArr [])]) p = ([PBlockStart ''{'', PBlockEnd ''}''], None)"
    "print (JNode 6 BlockStatement [(''body'', JArr [])]) p = ([PBlockStart ''{'', PBlockEnd ''}''], None)"
    for p
    by (simp_all add: field_def emit_def skip_def)
  have inner: "print (JNode 4 IfStatement ?gs) (JNode 7 IfStatement ?fs)
     = ([PSpace, PToken (JStr ''if''), PSpace, PToken (JStr ''$c''), PBlockStart ''{'', PBlockEnd ''}''], None)"
    using IfStatement_chain [of 4 ?gs "JNode 7 IfStatement ?fs"]
    by (simp add: f leaf emit_def skip_def del: print.simps)
  have outer: "print (JNode 7 IfStatement ?fs) JUndefined
     = ([PToken (JStr ''@if''), PSpace, PToken (JStr ''$a''), PBlockStart ''{'', PBlockEnd ''}'',
         PToken (JStr ''@else''),
         PSpace, PToken (JStr ''if''), PSpace, PToken (JStr ''$c''), PBlockStart ''{'', PBlockEnd ''}''], None)"
    using IfStatement_chain [of 7 ?fs JUndefined]
    by (simp add: f leaf inner emit_def skip_def tok_def del: print.simps)
  show ?thesis
    unfolding generate_def outer
    by (simp add: new_printer_def token_def space_def newline_def blockStart_def blockEnd_def)
qed

lemma steps_sep_by_ok:
  "(\<And>x. x \<in> set xs \<Longrightarrow> g x = (h x, None)) \<Longrightarrow>
   steps (sep_by [(sep, None)] (map (\<lambda>x. [g x]) xs)) = (sep_by sep (map h xs), None)"
proof (induction xs)
  case Nil
  show ?case by (simp add: skip_def)
next
  case (Cons x xs)
  then show ?case by (cases xs) (simp_all add: skip_def)
qed

lemma print_Declaration_string:
  "kind_of d = Some Declaration \<Longrightarrow> get_prop d ''value'' = JStr s \<Longrightarrow>
   print d p = (declaration_cmds d, None)"
  by (cases d) (simp_all add: declaration_cmds_def emit_def tok_def skip_def)

lemma js_join_strings: "js_join s (map JStr names) = sep_by s names"
  by (simp add: js_join_def comp_def)

text \<open>
  C5. A Rule whose selectors are strings and whose declarations have string values emits
  the selectors joined by a comma and a space, a space, and a block holding the
  statement of each declaration, ended by its own \<^verbatim>\<open>;\<close>, with a newline between two
  declarations and none after the last. The rule \<^verbatim>\<open>.box\<close> with the declaration of
  \<^verbatim>\<open>color\<close> as \<^verbatim>\<open>red\<close> renders as the three lines \<^verbatim>\<open>.box {\<close>, the indented
  \<^verbatim>\<open>color: red;\<close> and \<^verbatim>\<open>}\<close>.
\<close>

theorem Rule_emission:
  "(field fs ''selectors'' = JArr (map JStr names) \<and> field fs ''declarations'' = JArr ds
      \<and> (\<forall>d \<in> set ds. kind_of d = Some Declaration \<and> (\<exists>s. get_prop d ''value'' = JStr s))
      \<longrightarrow> print (JNode r Rule fs) parent
            = ([PToken (JStr (sep_by '', '' names)), PSpace, PBlockStart ''{'']
               @ sep_by [PNewline] (map declaration_cmds ds)
               @ [PBlockEnd ''}''], None))
   \<and> generate (JNode 1 Rule
        [(''selectors'', JArr [JStr ''.box'']),
         (''declarations'',
          JArr [JNode 2 Declaration [(''property'', JStr ''color''), (''value'', JStr ''red'')]])])
        JUndefined
      = Inr ''.box {\<newline>  color: red;\<newline>}''"
proof (intro conjI impI)
  assume a: "field fs ''selectors'' = JArr (map JStr names) \<and> field fs ''declarations'' = JArr ds
      \<and> (\<forall>d \<in> set ds. kind_of d = Some Declaration \<and> (\<exists>s. get_prop d ''value'' = JStr s))"
  then have "steps (sep_by [([PNewline], None)] (map (\<lambda>d. [print d (JNode r Rule fs)]) ds))
      = (sep_by [PNewline] (map declaration_cmds ds), None)"
    by (intro steps_sep_by_ok) (auto intro: print_Declaration_string)
  with a show "print (JNode r Rule fs) parent
            = ([PToken (JStr (sep_by '', '' names)), PSpace, PBlockStart ''{'']
               @ sep_by [PNewline] (map declaration_cmds ds)
               @ [PBlockEnd ''}''], None)"
    by (simp add: print_each_plain js_join_strings emit_def tok_def)
next
  show "generate (JNode 1 Rule
        [(''selectors'', JArr [JStr ''.box'']),
         (''declarations'',
          JArr [JNode 2 Declaration [(''property'', JStr ''color''), (''value'', JStr ''red'')]])])
        JUndefined
      = Inr ''.box {\<newline>  color: red;\<newline>}''"
    by code_simp
qed

theorem Rule_emission_witness:
  "print (JNode 3 Rule
        [(''selectors'', JArr [JStr ''a'', JStr ''b'']),
         (''declarations'',
          JArr [JNode 4 Declaration [(''property'', JStr ''color''), (''value'', JStr ''red'')],
                JNode 5 Declaration [(''property'', JStr ''top''), (''value'', JStr ''0'')]])])
        JUndefined
     = ([PToken (JStr ''a, b''), PSpace, PBlockStart ''{'',
         PToken (JStr ''color''), PToken (JStr '':''), PSpace, PToken (JStr ''red''), PToken (JStr '';''),
         PNewline,
         PToken (JStr ''top''), PToken (JStr '':''), PSpace, PToken (JStr ''0''), PToken (JStr '';''),
         PBlockEnd ''}''], None)"
proof -
  let ?ds = "[JNode 4 Declaration [(''property'', JStr ''color''), (''value'', JStr ''red'')],
              JNode 5 Declaration [(''property'', JStr ''top''), (''value'', JStr ''0'')]]"
  let ?fs = "[(''selectors'', JArr [JStr ''a'', JStr ''b'']), (''declarations'', JArr ?ds)]"
  have h: "field ?fs ''selectors'' = JArr (map JStr [''a'', ''b'']) \<and> field ?fs ''declarations'' = JArr ?ds
      \<and> (\<forall>d \<in> set ?ds. kind_of d = Some Declaration \<and> (\<exists>s. get_prop d ''value'' = JStr s))"
    by (simp add: field_def)
  from Rule_emission [where fs = ?fs and names = "[''a'', ''b'']" and ds = ?ds and r = 3
      and parent = JUndefined] h
  show ?thesis
    by (simp add: declaration_cmds_def field_def del: print.simps)
qed

text \<open>
  The printer on the third rendering the specification gives: a mixin call with a
  parameter and a block.
\<close>

lemma mixin_call_with_block_rendering:
  "generate (JNode 2 SassMixinCall
       [(''id'', JNode 3 Identifier [(''name'', JStr ''respond'')]),
        (''params'', JArr [JNode 4 SassString [(''value'', JStr ''md'')]]),
        (''body'', JNode 5 BlockStatement
           [(''body'',
             JArr [JNode 6 Declaration [(''property'', JStr ''display''), (''value'', JStr ''flex'')]])])])
     JUndefined
   = Inr (''@include respond('' @ [CHR 0x27] @ ''md'' @ [CHR 0x27]
          @ '') {\<newline>  display: flex;\<newline>};'')"
  by code_simp

text \<open>
  C7. An AtRule emits \<^verbatim>\<open>@\<close> and the name, the media text, and then a block with its
  children, a newline between two of them and none after the last, only when there is
  at least one child. With no children it emits the prelude alone and no block: the
  at-rule \<^verbatim>\<open>media\<close> with the media text \<^verbatim>\<open>(min-width: 0)\<close> and no children renders
  as exactly \<^verbatim>\<open>@media (min-width: 0)\<close>.
\<close>

theorem AtRule_emission:
  "(field fs ''children'' = JArr cs
      \<longrightarrow> print (JNode r AtRule fs) parent
            = steps ([tok (''@'' @ to_string (field fs ''name'')), emit PSpace,
                      emit (PToken (field fs ''media'')), emit PSpace]
                     @ (if cs = [] then []
                        else [emit (PBlockStart ''{'')]
                             @ sep_by [([PNewline], None)] (map (\<lambda>c. [print c (JNode r AtRule fs)]) cs)
                             @ [emit (PBlockEnd ''}'')])))
   \<and> print (JNode 1 AtRule
        [(''name'', JStr ''media''), (''media'', JStr ''(min-width: 0)''), (''children'', JArr [])])
        JUndefined
      = ([PToken (JStr ''@media''), PSpace, PToken (JStr ''(min-width: 0)''), PSpace], None)
   \<and> generate (JNode 1 AtRule
        [(''name'', JStr ''media''), (''media'', JStr ''(min-width: 0)''), (''children'', JArr [])])
        JUndefined
      = Inr ''@media (min-width: 0)''"
proof (intro conjI impI)
  assume "field fs ''children'' = JArr cs"
  then show "print (JNode r AtRule fs) parent
            = steps ([tok (''@'' @ to_string (field fs ''name'')), emit PSpace,
                      emit (PToken (field fs ''media'')), emit PSpace]
                     @ (if cs = [] then []
                        else [emit (PBlockStart ''{'')]
                             @ sep_by [([PNewline], None)] (map (\<lambda>c. [print c (JNode r AtRule fs)]) cs)
                             @ [emit (PBlockEnd ''}'')]))"
    by (simp add: print_each_plain steps_append and_then_assoc)
next
  show "print (JNode 1 AtRule
        [(''name'', JStr ''media''), (''media'', JStr ''(min-width: 0)''), (''children'', JArr [])])
        JUndefined
      = ([PToken (JStr ''@media''), PSpace, PToken (JStr ''(min-width: 0)''), PSpace], None)"
    by code_simp
next
  show "generate (JNode 1 AtRule
        [(''name'', JStr ''media''), (''media'', JStr ''(min-width: 0)''), (''children'', JArr [])])
        JUndefined
      = Inr ''@media (min-width: 0)''"
    by code_simp
qed

theorem AtRule_emission_witness:
  "generate (JNode 6 AtRule
        [(''name'', JStr ''media''), (''media'', JStr ''print''),
         (''children'',
          JArr [JNode 7 Rule
                  [(''selectors'', JArr [JStr ''.box'']),
                   (''declarations'',
                    JArr [JNode 8 Declaration [(''property'', JStr ''color''), (''value'', JStr ''red'')]])]])])
        JUndefined
     = Inr ''@media print {\<newline>  .box {\<newline>    color: red;\<newline>  }\<newline>}''"
proof -
  let ?rule = "JNode 7 Rule
                  [(''selectors'', JArr [JStr ''.box'']),
                   (''declarations'',
                    JArr [JNode 8 Declaration [(''property'', JStr ''color''), (''value'', JStr ''red'')]])]"
  let ?fs = "[(''name'', JStr ''media''), (''media'', JStr ''print''), (''children'', JArr [?rule])]"
  have h: "field ?fs ''children'' = JArr [?rule]"
    by (simp add: field_def)
  have r: "print ?rule (JNode 6 AtRule ?fs)
     = ([PToken (JStr ''.box''), PSpace, PBlockStart ''{'',
         PToken (JStr ''color''), PToken (JStr '':''), PSpace, PToken (JStr ''red''), PToken (JStr '';''),
         PBlockEnd ''}''], None)"
    by code_simp
  let ?cs = "[PToken (JStr ''@media''), PSpace, PToken (JStr ''print''), PSpace, PBlockStart ''{'',
         PToken (JStr ''.box''), PSpace, PBlockStart ''{'',
         PToken (JStr ''color''), PToken (JStr '':''), PSpace, PToken (JStr ''red''), PToken (JStr '';''),
         PBlockEnd ''}'', PBlockEnd ''}'']"
  have p: "print (JNode 6 AtRule ?fs) JUndefined = (?cs, None)"
    using AtRule_emission [where fs = ?fs and cs = "[?rule]" and r = 6 and parent = JUndefined] h
    by (simp add: r field_def tok_def emit_def del: print.simps)
  have "buffer (exec ?cs new_printer)
     = ''@media print {\<newline>  .box {\<newline>    color: red;\<newline>  }\<newline>}''"
    by code_simp
  with p show ?thesis
    unfolding generate_def by (simp del: print.simps)
qed


lemma index_of_ge: "- 1 \<le> index_of n xs"
  by (induction xs) (auto simp: Let_def)

lemma index_of_zero: "index_of n xs = 0 \<longleftrightarrow> xs \<noteq> [] \<and> hd xs = n"
proof (cases xs)
  case Nil
  then show ?thesis by simp
next
  case (Cons x ys)
  with index_of_ge [of n ys] show ?thesis by (auto simp: Let_def)
qed

lemma statement_break_eq:
  "get_prop parent ''body'' = JArr xs \<or> nullish (get_prop parent ''body'') \<Longrightarrow>
   statement_break parent node = ((if first_in_body parent node then [] else [PMaybeNewline]), None)"
  by (cases "get_prop parent ''body''")
     (auto simp: statement_break_def not_first_in_body_def first_in_body_def index_of_zero
        emit_def skip_def)

text \<open>
  C10, as amended. For a parent that is absent or whose body is absent or an array,
  AtContent and AtReturn call \<^verbatim>\<open>maybeNewline\<close> first exactly when the node is not the
  first element of the body array of the parent; so they do when there is no parent.
  AtContent then emits the one token \<^verbatim>\<open>@content;\<close>, and AtReturn emits \<^verbatim>\<open>@return\<close>,
  a space, its argument printed with the AtReturn as parent, and \<^verbatim>\<open>;\<close>.
\<close>

theorem AtContent_AtReturn_break:
  "get_prop parent ''body'' = JArr xs \<or> nullish (get_prop parent ''body'') \<Longrightarrow>
     print (JNode r AtContent fs) parent
       = ((if first_in_body parent (JNode r AtContent fs) then [] else [PMaybeNewline])
          @ [PToken (JStr ''@content;'')], None)
   \<and> print (JNode r AtReturn gs) parent
       = and_then
           ((if first_in_body parent (JNode r AtReturn gs) then [] else [PMaybeNewline])
            @ [PToken (JStr ''@return''), PSpace], None)
           (and_then (print (field gs ''argument'') (JNode r AtReturn gs)) (tok '';''))
   \<and> (parent = JUndefined \<longrightarrow> \<not> first_in_body parent (JNode r AtContent fs)
                               \<and> \<not> first_in_body parent (JNode r AtReturn gs))"
proof (intro conjI impI)
  assume a: "get_prop parent ''body'' = JArr xs \<or> nullish (get_prop parent ''body'')"
  show "print (JNode r AtContent fs) parent
       = ((if first_in_body parent (JNode r AtContent fs) then [] else [PMaybeNewline])
          @ [PToken (JStr ''@content;'')], None)"
    by (simp add: statement_break_eq [OF a] tok_def emit_def)
  show "print (JNode r AtReturn gs) parent
       = and_then
           ((if first_in_body parent (JNode r AtReturn gs) then [] else [PMaybeNewline])
            @ [PToken (JStr ''@return''), PSpace], None)
           (and_then (print (field gs ''argument'') (JNode r AtReturn gs)) (tok '';''))"
    by (simp add: statement_break_eq [OF a])
next
  assume "parent = JUndefined"
  then show "\<not> first_in_body parent (JNode r AtContent fs)"
    and "\<not> first_in_body parent (JNode r AtReturn gs)"
    by (simp_all add: first_in_body_def)
qed

text \<open>
  C10 as stated fails: a SassMixinCall with a block is a node its constructor accepts,
  it has no body array, its body being the block, and with it as parent AtContent throws
  before any printer call, and so does AtReturn.
\<close>

theorem AtContent_node_body_counterexample:
  "makeInvocableDefinition SassMixinCall 7
     [(''id'', JNode 8 Identifier [(''name'', JStr ''respond'')]),
      (''body'', JNode 9 BlockStatement [(''body'', JArr [JNode 2 AtContent []])])]
     = Inr (JNode 7 SassMixinCall
              [(''id'', JNode 8 Identifier [(''name'', JStr ''respond'')]),
               (''body'', JNode 9 BlockStatement [(''body'', JArr [JNode 2 AtContent []])])])
   \<and> \<not> first_in_body
          (JNode 7 SassMixinCall
             [(''id'', JNode 8 Identifier [(''name'', JStr ''respond'')]),
              (''body'', JNode 9 BlockStatement [(''body'', JArr [JNode 2 AtContent []])])])
          (JNode 2 AtContent [])
   \<and> print (JNode 2 AtContent [])
        (JNode 7 SassMixinCall
           [(''id'', JNode 8 Identifier [(''name'', JStr ''respond'')]),
            (''body'', JNode 9 BlockStatement [(''body'', JArr [JNode 2 AtContent []])])])
      = ([], Some TypeError)
   \<and> print (JNode 3 AtReturn [(''argument'', JNode 4 SassNumber [(''value'', JNum ''2'')])])
        (JNode 7 SassMixinCall
           [(''id'', JNode 8 Identifier [(''name'', JStr ''respond'')]),
            (''body'', JNode 9 BlockStatement [(''body'', JArr [JNode 2 AtContent []])])])
      = ([], Some TypeError)"
  by code_simp

theorem AtContent_AtReturn_break_witness:
  "print (JNode 2 AtContent [])
     (JNode 5 BlockStatement [(''body'', JArr [JNode 2 AtContent [], JNode 3 AtContent []])])
     = ([PToken (JStr ''@content;'')], None)
   \<and> print (JNode 3 AtContent [])
     (JNode 5 BlockStatement [(''body'', JArr [JNode 2 AtContent [], JNode 3 AtContent []])])
     = ([PMaybeNewline, PToken (JStr ''@content;'')], None)
   \<and> print (JNode 4 AtReturn [(''argument'', JNode 6 SassNumber [(''value'', JNum ''2'')])]) JUndefined
     = ([PMaybeNewline, PToken (JStr ''@return''), PSpace, PToken (JNum ''2''), PToken (JStr '';'')], None)"
proof -
  let ?b = "JNode 5 BlockStatement [(''body'', JArr [JNode 2 AtContent [], JNode 3 AtContent []])]"
  have h: "get_prop ?b ''body'' = JArr [JNode 2 AtContent [], JNode 3 AtContent []]
             \<or> nullish (get_prop ?b ''body'')"
    by (simp add: field_def)
  have u: "get_prop JUndefined ''body'' = JArr [] \<or> nullish (get_prop JUndefined ''body'')"
    by simp
  have f: "first_in_body ?b (JNode 2 AtContent [])" "\<not> first_in_body ?b (JNode 3 AtContent [])"
    "\<not> first_in_body JUndefined n" for n
    by (simp_all add: first_in_body_def field_def)
  have n: "print (JNode 6 SassNumber [(''value'', JNum ''2'')]) p = ([PToken (JNum ''2'')], None)" for p
    by (simp add: field_def emit_def)
  from AtContent_AtReturn_break [OF h, of 2 "[]" "[]"] AtContent_AtReturn_break [OF h, of 3 "[]" "[]"]
    AtContent_AtReturn_break [OF u, of 4 "[]" "[(''argument'', JNode 6 SassNumber [(''value'', JNum ''2'')])]"]
  show ?thesis
    by (simp add: f n field_def tok_def emit_def del: print.simps)
qed








end
